theory Spec2Isabelle
  imports Main "HOL-Library.Word"
begin

section \<open>A two-tier cache: data model\<close>

text \<open>
  The embedding follows \<^verbatim>\<open>src/cache.go\<close>, type \<^verbatim>\<open>Cache\<close> (the file also
  carries an earlier revision of the package, type \<^verbatim>\<open>Codec\<close>, whose local store
  has no staleness window; it is not modelled). A byte slice is a list of 8-bit words;
  a \<^verbatim>\<open>time.Duration\<close> and an instant are integers counting nanoseconds (the
  methods only compare them and subtract two instants).
\<close>

type_synonym bytes = "8 word list"

definition time_Second :: int where
  "time_Second = 1000000000"

definition time_Minute :: int where
  "time_Minute = 60 * time_Second"

definition time_Hour :: int where
  "time_Hour = 60 * time_Minute"

text \<open>
  Go error values: the two sentinels of the package, the remote client's not-found
  sentinel \<^verbatim>\<open>redis.Nil\<close>, and any other error a collaborator returns.
\<close>

datatype error = ErrCacheMiss | errRedisLocalCacheNil | redis_Nil | Failure string

text \<open>
  What a method call comes to: a normal return without error, a returned error, or a
  panic (which an \<^verbatim>\<open>if err != nil\<close> does not catch).
\<close>

datatype 'a res = Ok 'a | Err error | Panic string

text \<open>
  \<^verbatim>\<open>Item\<close>: \<^verbatim>\<open>Value\<close> is \<open>None\<close> for a nil interface; \<^verbatim>\<open>Func\<close> is \<open>None\<close>
  for a nil function and otherwise runs on the state \<open>'w\<close> it closes over.
\<close>

record ('v, 'w) Item =
  Key :: string
  Value :: "'v option"
  TTL :: int
  Func :: "('w \<Rightarrow> (error + 'v option) \<times> 'w) option"

text \<open>
  \<^verbatim>\<open>Options\<close>: \<^verbatim>\<open>Redis\<close> is \<open>None\<close> for a nil interface and otherwise holds the
  state of the remote store behind the handle; \<^verbatim>\<open>LocalCache\<close> is \<open>None\<close> for a nil
  pointer and otherwise the content of the in-process store, a map from keys to byte
  slices (capacity-driven eviction is not modelled).
\<close>

record 'r Options =
  Redis :: "'r option"
  LocalCache :: "(string \<rightharpoonup> bytes) option"
  LocalCacheTTL :: int
  StatsEnabled :: bool

text \<open>
  \<^verbatim>\<open>Cache\<close> extends its options (\<^verbatim>\<open>cd.opt.X\<close> is \<open>X cd\<close>) with the two counters and
  with the ambient state its methods read: \<open>clock\<close> is what \<^verbatim>\<open>time.Now()\<close> returns,
  \<open>world\<close> is the state the producer closes over.
\<close>

record ('r, 'w) Cache = "'r Options" +
  hits :: "64 word"
  misses :: "64 word"
  clock :: int
  world :: 'w

text \<open>
  The collaborators whose code is outside \<^verbatim>\<open>src/cache.go\<close>, taken as parameters:
  the serializer (\<^verbatim>\<open>marshal\<close>, \<^verbatim>\<open>unmarshal\<close> into a non-nil target holding a
  value), the timestamp codec (\<^verbatim>\<open>encodeTime\<close> fills a 4-byte slice,
  \<^verbatim>\<open>decodeTime\<close> reads one) and the three methods of the \<^verbatim>\<open>rediser\<close> interface,
  each acting on the remote store's state.
\<close>

record ('v, 'r) Collab =
  marshal :: "'v option \<Rightarrow> error + bytes"
  unmarshal :: "bytes \<Rightarrow> 'v \<Rightarrow> error + 'v"
  encodeTime :: "int \<Rightarrow> bytes"
  decodeTime :: "bytes \<Rightarrow> int"
  redis_Set :: "string \<Rightarrow> bytes \<Rightarrow> int \<Rightarrow> 'r \<Rightarrow> error option \<times> 'r"
  redis_Get :: "string \<Rightarrow> 'r \<Rightarrow> (error + bytes) \<times> 'r"
  redis_Del :: "string \<Rightarrow> 'r \<Rightarrow> (error + int) \<times> 'r"

section \<open>Items and options\<close>

definition item_value :: "('v, 'w) Item \<Rightarrow> 'w \<Rightarrow> (error + 'v option) \<times> 'w" where
  "item_value item w =
     (if Value item \<noteq> None then (Inr (Value item), w)
      else case Func item of
             Some f \<Rightarrow> f w
           | None \<Rightarrow> (Inr None, w))"

definition item_exp :: "('v, 'w) Item \<Rightarrow> int" where
  "item_exp item =
     (if TTL item < 0 then 0
      else if TTL item < time_Second then time_Hour
      else TTL item)"

definition Options_init :: "('r, 'm) Options_scheme \<Rightarrow> ('r, 'm) Options_scheme" where
  "Options_init opt =
     (if LocalCacheTTL opt = - 1 then opt\<lparr>LocalCacheTTL := 0\<rparr>
      else if LocalCacheTTL opt = 0 then opt\<lparr>LocalCacheTTL := time_Minute\<rparr>
      else opt)"

definition New :: "'r Options \<Rightarrow> int \<Rightarrow> 'w \<Rightarrow> ('r, 'w) Cache" where
  "New opt now w =
     (let opt' = Options_init opt
      in \<lparr>Redis = Redis opt', LocalCache = LocalCache opt',
          LocalCacheTTL = LocalCacheTTL opt', StatsEnabled = StatsEnabled opt',
          hits = 0, misses = 0, clock = now, world = w\<rparr>)"

section \<open>The local tier\<close>

text \<open>
  \<^verbatim>\<open>localSet\<close> appends four zero bytes and lets \<^verbatim>\<open>encodeTime\<close> fill them: the
  suffix is always four bytes long, whatever the codec writes.
\<close>

definition timestamp :: "('v, 'r) Collab \<Rightarrow> int \<Rightarrow> bytes" where
  "timestamp ext t = take 4 (encodeTime ext t @ [0, 0, 0, 0])"

definition localSet ::
  "('v, 'r) Collab \<Rightarrow> string \<Rightarrow> bytes \<Rightarrow> ('r, 'w) Cache \<Rightarrow> ('r, 'w) Cache res" where
  "localSet ext key b cd =
     (let b' = (if LocalCacheTTL cd > 0 then b @ timestamp ext (clock cd) else b)
      in case LocalCache cd of
           None \<Rightarrow> Panic ''nil pointer dereference''
         | Some m \<Rightarrow> Ok (cd\<lparr>LocalCache := Some (m(key \<mapsto> b'))\<rparr>))"

definition localGet ::
  "('v, 'r) Collab \<Rightarrow> string \<Rightarrow> ('r, 'w) Cache \<Rightarrow> (bytes \<times> bool) res" where
  "localGet ext key cd =
     (case LocalCache cd of
        None \<Rightarrow> Panic ''nil pointer dereference''
      | Some m \<Rightarrow>
          (case m key of
             None \<Rightarrow> Ok ([], False)
           | Some b \<Rightarrow>
               if length b = 0 \<or> LocalCacheTTL cd = 0 then Ok (b, True)
               else if length b \<le> 4 then Panic ''not reached''
               else if clock cd - decodeTime ext (drop (length b - 4) b) > LocalCacheTTL cd
                 then Ok ([], False)
               else Ok (take (length b - 4) b, True)))"

section \<open>The tiered accessor\<close>

definition cache_set ::
  "('v, 'r) Collab \<Rightarrow> string \<Rightarrow> 'v option \<Rightarrow> int \<Rightarrow> ('r, 'w) Cache
     \<Rightarrow> bytes res \<times> ('r, 'w) Cache" where
  "cache_set ext key val exp cd =
     (case marshal ext val of
        Inl err \<Rightarrow> (Err err, cd)
      | Inr b \<Rightarrow>
          (case (if LocalCache cd \<noteq> None then localSet ext key b cd else Ok cd) of
             Panic p \<Rightarrow> (Panic p, cd)
           | Err e \<Rightarrow> (Err e, cd)
           | Ok cd1 \<Rightarrow>
               (case Redis cd1 of
                  None \<Rightarrow>
                    if LocalCache cd1 = None then (Err errRedisLocalCacheNil, cd1)
                    else (Ok b, cd1)
                | Some r \<Rightarrow>
                    (case redis_Set ext key b exp r of
                       (None, r') \<Rightarrow> (Ok b, cd1\<lparr>Redis := Some r'\<rparr>)
                     | (Some err, r') \<Rightarrow> (Err err, cd1\<lparr>Redis := Some r'\<rparr>)))))"

definition Cache_Set ::
  "('v, 'r) Collab \<Rightarrow> ('v, 'w) Item \<Rightarrow> ('r, 'w) Cache \<Rightarrow> unit res \<times> ('r, 'w) Cache" where
  "Cache_Set ext item cd =
     (case item_value item (world cd) of
        (Inl err, w) \<Rightarrow> (Err err, cd\<lparr>world := w\<rparr>)
      | (Inr val, w) \<Rightarrow>
          (case cache_set ext (Key item) val (item_exp item) (cd\<lparr>world := w\<rparr>) of
             (Ok b, cd1) \<Rightarrow> (Ok (), cd1)
           | (Err e, cd1) \<Rightarrow> (Err e, cd1)
           | (Panic p, cd1) \<Rightarrow> (Panic p, cd1)))"

definition getBytes ::
  "('v, 'r) Collab \<Rightarrow> string \<Rightarrow> ('r, 'w) Cache \<Rightarrow> bytes res \<times> ('r, 'w) Cache" where
  "getBytes ext key cd =
     (case (if LocalCache cd \<noteq> None then localGet ext key cd else Ok ([], False)) of
        Panic p \<Rightarrow> (Panic p, cd)
      | Err e \<Rightarrow> (Err e, cd)
      | Ok (lb, ok) \<Rightarrow>
          if ok then (Ok lb, cd)
          else
            (case Redis cd of
               None \<Rightarrow>
                 if LocalCache cd = None then (Err errRedisLocalCacheNil, cd)
                 else (Err ErrCacheMiss, cd)
             | Some r \<Rightarrow>
                 (case redis_Get ext key r of
                    (Inl err, r') \<Rightarrow>
                      (let cd1 = cd\<lparr>Redis := Some r'\<rparr>;
                           cd2 = (if StatsEnabled cd1 then cd1\<lparr>misses := misses cd1 + 1\<rparr>
                                  else cd1)
                       in if err = redis_Nil then (Err ErrCacheMiss, cd2) else (Err err, cd2))
                  | (Inr b, r') \<Rightarrow>
                      (let cd1 = cd\<lparr>Redis := Some r'\<rparr>;
                           cd2 = (if StatsEnabled cd1 then cd1\<lparr>hits := hits cd1 + 1\<rparr>
                                  else cd1)
                       in if LocalCache cd2 \<noteq> None
                          then (case localSet ext key b cd2 of
                                  Ok cd3 \<Rightarrow> (Ok b, cd3)
                                | Err e \<Rightarrow> (Err e, cd2)
                                | Panic p \<Rightarrow> (Panic p, cd2))
                          else (Ok b, cd2)))))"

text \<open>
  \<^verbatim>\<open>get\<close> decodes into the target; the result carries what the target holds when
  the call returns (\<open>None\<close> for a nil target, the untouched content when nothing was
  decoded).
\<close>

definition cache_get ::
  "('v, 'r) Collab \<Rightarrow> string \<Rightarrow> 'v option \<Rightarrow> ('r, 'w) Cache
     \<Rightarrow> 'v option res \<times> ('r, 'w) Cache" where
  "cache_get ext key target cd =
     (case getBytes ext key cd of
        (Panic p, cd1) \<Rightarrow> (Panic p, cd1)
      | (Err e, cd1) \<Rightarrow> (Err e, cd1)
      | (Ok b, cd1) \<Rightarrow>
          (case target of
             None \<Rightarrow> (Ok None, cd1)
           | Some t \<Rightarrow>
               if length b = 0 then (Ok (Some t), cd1)
               else (case unmarshal ext b t of
                       Inl err \<Rightarrow> (Err err, cd1)
                     | Inr v \<Rightarrow> (Ok (Some v), cd1))))"

definition Cache_Get ::
  "('v, 'r) Collab \<Rightarrow> string \<Rightarrow> 'v option \<Rightarrow> ('r, 'w) Cache
     \<Rightarrow> 'v option res \<times> ('r, 'w) Cache" where
  "Cache_Get ext key target cd = cache_get ext key target cd"

definition Exists ::
  "('v, 'r) Collab \<Rightarrow> string \<Rightarrow> ('r, 'w) Cache \<Rightarrow> bool res \<times> ('r, 'w) Cache" where
  "Exists ext key cd =
     (case Cache_Get ext key None cd of
        (Ok t, cd1) \<Rightarrow> (Ok True, cd1)
      | (Err e, cd1) \<Rightarrow> (Ok False, cd1)
      | (Panic p, cd1) \<Rightarrow> (Panic p, cd1))"

definition Delete ::
  "('v, 'r) Collab \<Rightarrow> string \<Rightarrow> ('r, 'w) Cache \<Rightarrow> error option \<times> ('r, 'w) Cache" where
  "Delete ext key cd =
     (let cd1 = (case LocalCache cd of
                   Some m \<Rightarrow> cd\<lparr>LocalCache := Some (m(key := None))\<rparr>
                 | None \<Rightarrow> cd)
      in case Redis cd1 of
           None \<Rightarrow>
             if LocalCache cd1 = None then (Some errRedisLocalCacheNil, cd1)
             else (None, cd1)
         | Some r \<Rightarrow>
             (case redis_Del ext key r of
                (Inl err, r') \<Rightarrow> (Some err, cd1\<lparr>Redis := Some r'\<rparr>)
              | (Inr deleted, r') \<Rightarrow>
                  if deleted = 0 then (Some ErrCacheMiss, cd1\<lparr>Redis := Some r'\<rparr>)
                  else (None, cd1\<lparr>Redis := Some r'\<rparr>)))"

section \<open>Get-or-compute\<close>

text \<open>
  With a single caller, \<^verbatim>\<open>group.Do(key, fn)\<close> runs \<open>fn\<close> and returns its result.
  The second component of a normal result is the named return \<^verbatim>\<open>cached\<close>.
\<close>

definition getSetItemBytesOnce ::
  "('v, 'r) Collab \<Rightarrow> ('v, 'w) Item \<Rightarrow> ('r, 'w) Cache
     \<Rightarrow> (bytes \<times> bool) res \<times> ('r, 'w) Cache" where
  "getSetItemBytesOnce ext item cd =
     (case (if LocalCache cd \<noteq> None then localGet ext (Key item) cd else Ok ([], False)) of
        Panic p \<Rightarrow> (Panic p, cd)
      | Err e \<Rightarrow> (Err e, cd)
      | Ok (lb, ok) \<Rightarrow>
          if ok then (Ok (lb, True), cd)
          else
            (case getBytes ext (Key item) cd of
               (Panic p, cd1) \<Rightarrow> (Panic p, cd1)
             | (Ok b, cd1) \<Rightarrow> (Ok (b, True), cd1)
             | (Err e, cd1) \<Rightarrow>
                 (case Func item of
                    None \<Rightarrow> (Panic ''nil pointer dereference'', cd1)
                  | Some f \<Rightarrow>
                      (case f (world cd1) of
                         (Inl err, w) \<Rightarrow> (Err err, cd1\<lparr>world := w\<rparr>)
                       | (Inr val, w) \<Rightarrow>
                           (case cache_set ext (Key item) val (item_exp item)
                                   (cd1\<lparr>world := w\<rparr>) of
                              (Panic p, cd2) \<Rightarrow> (Panic p, cd2)
                            | (Err e2, cd2) \<Rightarrow> (Err e2, cd2)
                            | (Ok b, cd2) \<Rightarrow> (Ok (b, False), cd2))))))"

text \<open>
  \<^verbatim>\<open>Once\<close> calls itself after a failed decode of cached bytes, with no bound on the
  number of retries: the result is \<open>None\<close> when the recursion never ends.
\<close>

partial_function (option) Once ::
  "('v, 'r) Collab \<Rightarrow> ('v, 'w) Item \<Rightarrow> ('r, 'w) Cache
     \<Rightarrow> ('v option res \<times> ('r, 'w) Cache) option" where
  "Once ext item cd =
     (case getSetItemBytesOnce ext item cd of
        (Panic p, cd1) \<Rightarrow> Some (Panic p, cd1)
      | (Err e, cd1) \<Rightarrow> Some (Err e, cd1)
      | (Ok (b, cached), cd1) \<Rightarrow>
          (case Value item of
             None \<Rightarrow> Some (Ok None, cd1)
           | Some t \<Rightarrow>
               if length b = 0 then Some (Ok (Some t), cd1)
               else (case unmarshal ext b t of
                       Inr v \<Rightarrow> Some (Ok (Some v), cd1)
                     | Inl err \<Rightarrow>
                         if cached
                         then Once ext item (snd (Delete ext (Key item) cd1))
                         else Some (Err err, cd1))))"

section \<open>Stand-ins for the collaborators\<close>

text \<open>
  Concrete collaborators on which the theorems below are exercised: a remote store
  that keeps every entry with the expiration it was written with, a serializer for
  byte-slice values that writes them as they are, and a timestamp codec with a
  resolution of one second held in one byte.
\<close>

type_synonym mem_redis = "string \<rightharpoonup> bytes \<times> int"

definition mem_Set :: "string \<Rightarrow> bytes \<Rightarrow> int \<Rightarrow> mem_redis \<Rightarrow> error option \<times> mem_redis" where
  "mem_Set k b e r = (None, r(k \<mapsto> (b, e)))"

definition mem_Get :: "string \<Rightarrow> mem_redis \<Rightarrow> (error + bytes) \<times> mem_redis" where
  "mem_Get k r = (case r k of None \<Rightarrow> (Inl redis_Nil, r) | Some (b, e) \<Rightarrow> (Inr b, r))"

definition mem_Del :: "string \<Rightarrow> mem_redis \<Rightarrow> (error + int) \<times> mem_redis" where
  "mem_Del k r = (case r k of None \<Rightarrow> (Inr 0, r) | Some x \<Rightarrow> (Inr 1, r(k := None)))"

definition raw_marshal :: "bytes option \<Rightarrow> error + bytes" where
  "raw_marshal v = (case v of None \<Rightarrow> Inr [] | Some b \<Rightarrow> Inr b)"

definition raw_unmarshal :: "bytes \<Rightarrow> bytes \<Rightarrow> error + bytes" where
  "raw_unmarshal b t = Inr b"

definition secs_encodeTime :: "int \<Rightarrow> bytes" where
  "secs_encodeTime t = [word_of_int (t div time_Second)]"

definition secs_decodeTime :: "bytes \<Rightarrow> int" where
  "secs_decodeTime b = (case b of [] \<Rightarrow> 0 | x # _ \<Rightarrow> uint x * time_Second)"

definition mem_ext :: "(bytes, mem_redis) Collab" where
  "mem_ext = \<lparr>marshal = raw_marshal, unmarshal = raw_unmarshal,
     encodeTime = secs_encodeTime, decodeTime = secs_decodeTime,
     redis_Set = mem_Set, redis_Get = mem_Get, redis_Del = mem_Del\<rparr>"

text \<open>A cache over the local tier alone, as \<^verbatim>\<open>New\<close> builds it, empty, at instant \<open>now\<close>.\<close>

definition local_only :: "int \<Rightarrow> int \<Rightarrow> (mem_redis, nat) Cache" where
  "local_only ttl now =
     New \<lparr>Redis = None, LocalCache = Some Map.empty, LocalCacheTTL = ttl,
          StatsEnabled = False\<rparr> now 0"

text \<open>A cache over the remote tier alone, and one over both tiers, both empty.\<close>

definition remote_only :: "(mem_redis, nat) Cache" where
  "remote_only =
     New \<lparr>Redis = Some Map.empty, LocalCache = None, LocalCacheTTL = 0,
          StatsEnabled = False\<rparr> 0 0"

definition two_tier :: "(mem_redis, nat) Cache" where
  "two_tier =
     New \<lparr>Redis = Some Map.empty, LocalCache = Some Map.empty, LocalCacheTTL = - 1,
          StatsEnabled = False\<rparr> 0 0"

text \<open>A cache with neither tier.\<close>

definition no_tier :: "(mem_redis, nat) Cache" where
  "no_tier =
     New \<lparr>Redis = None, LocalCache = None, LocalCacheTTL = 0, StatsEnabled = False\<rparr> 0 0"

text \<open>The passage of time between two calls.\<close>

definition at_time :: "int \<Rightarrow> ('r, 'w) Cache \<Rightarrow> ('r, 'w) Cache" where
  "at_time now cd = cd\<lparr>clock := now\<rparr>"

text \<open>Running a second call on the cache the first one returned.\<close>

definition and_then :: "'a res \<Rightarrow> ('a \<Rightarrow> 'b res) \<Rightarrow> 'b res" where
  "and_then r f = (case r of Ok x \<Rightarrow> f x | Err e \<Rightarrow> Err e | Panic p \<Rightarrow> Panic p)"

text \<open>
  Producers over a counter of their invocations, a decoder that rejects a payload
  starting with a zero byte, and remote methods that fail with a transport error.
\<close>

definition counting_Func :: "nat \<Rightarrow> (error + bytes option) \<times> nat" where
  "counting_Func w = (Inr (Some [42]), Suc w)"

definition failing_Func :: "nat \<Rightarrow> (error + bytes option) \<times> nat" where
  "failing_Func w = (Inl (Failure ''producer failed''), Suc w)"

definition strict_unmarshal :: "bytes \<Rightarrow> bytes \<Rightarrow> error + bytes" where
  "strict_unmarshal b t =
     (case b of
        [] \<Rightarrow> Inr b
      | x # _ \<Rightarrow> if x = 0 then Inl (Failure ''cannot decode'') else Inr b)"

definition down_Get :: "string \<Rightarrow> mem_redis \<Rightarrow> (error + bytes) \<times> mem_redis" where
  "down_Get k r = (Inl (Failure ''i/o timeout''), r)"

definition down_Del :: "string \<Rightarrow> mem_redis \<Rightarrow> (error + int) \<times> mem_redis" where
  "down_Del k r = (Inl (Failure ''i/o timeout''), r)"

definition strict_ext :: "(bytes, mem_redis) Collab" where
  "strict_ext = mem_ext\<lparr>unmarshal := strict_unmarshal\<rparr>"

definition corrupt_Func :: "nat \<Rightarrow> (error + bytes option) \<times> nat" where
  "corrupt_Func w = (Inr (Some [0, 1]), Suc w)"

definition down_ext :: "(bytes, mem_redis) Collab" where
  "down_ext = mem_ext\<lparr>redis_Get := down_Get\<rparr>"

definition flaky_ext :: "(bytes, mem_redis) Collab" where
  "flaky_ext = strict_ext\<lparr>redis_Del := down_Del\<rparr>"

text \<open>A cache whose local store, or whose remote stand-in, already holds an entry.\<close>

definition with_local :: "string \<Rightarrow> bytes \<Rightarrow> ('r, 'w) Cache \<Rightarrow> ('r, 'w) Cache" where
  "with_local key b cd =
     cd\<lparr>LocalCache := Some ((case LocalCache cd of None \<Rightarrow> Map.empty | Some m \<Rightarrow> m)
                              (key \<mapsto> b))\<rparr>"

definition with_remote ::
  "string \<Rightarrow> bytes \<Rightarrow> (mem_redis, 'w) Cache \<Rightarrow> (mem_redis, 'w) Cache" where
  "with_remote key b cd =
     cd\<lparr>Redis := Some ((case Redis cd of None \<Rightarrow> Map.empty | Some r \<Rightarrow> r)
                         (key \<mapsto> (b, 0)))\<rparr>"

text \<open>What the local store holds under a key, and what the remote stand-in holds.\<close>

definition stored :: "string \<Rightarrow> ('r, 'w) Cache \<Rightarrow> bytes option" where
  "stored key cd = (case LocalCache cd of None \<Rightarrow> None | Some m \<Rightarrow> m key)"

definition remote_entry :: "string \<Rightarrow> (mem_redis, 'w) Cache \<Rightarrow> (bytes \<times> int) option" where
  "remote_entry key cd = (case Redis cd of None \<Rightarrow> None | Some r \<Rightarrow> r key)"

section \<open>Basic facts\<close>

lemmas standin_defs =
  mem_ext_def mem_Set_def mem_Get_def mem_Del_def raw_marshal_def raw_unmarshal_def
  secs_encodeTime_def secs_decodeTime_def local_only_def remote_only_def two_tier_def
  no_tier_def New_def Options_init_def time_Second_def time_Minute_def time_Hour_def
  at_time_def and_then_def stored_def remote_entry_def counting_Func_def failing_Func_def
  strict_unmarshal_def down_Get_def down_Del_def strict_ext_def with_local_def
  with_remote_def corrupt_Func_def down_ext_def flaky_ext_def

lemma length_timestamp: "length (timestamp ext t) = 4"
  by (simp add: timestamp_def)

lemma localSet_Ok:
  "LocalCache cd = Some m \<Longrightarrow>
   localSet ext key b cd =
     Ok (cd\<lparr>LocalCache :=
              Some (m(key \<mapsto> (if 0 < LocalCacheTTL cd then b @ timestamp ext (clock cd)
                                else b)))\<rparr>)"
  by (simp add: localSet_def Let_def)

lemma Delete_local:
  "LocalCache (snd (Delete ext key cd)) = map_option (\<lambda>m. m(key := None)) (LocalCache cd)"
  by (simp add: Delete_def Let_def split: option.splits prod.splits sum.splits)

lemma New_LocalCacheTTL:
  "LocalCacheTTL (New opt written w) =
     (if LocalCacheTTL opt = - 1 then 0
      else if LocalCacheTTL opt = 0 then 60000000000
      else LocalCacheTTL opt)"
  by (simp add: New_def Options_init_def Let_def time_Minute_def time_Second_def)

lemma New_fields:
  "LocalCache (New opt written w) = LocalCache opt"
  "clock (New opt written w) = written"
  by (simp_all add: New_def Options_init_def Let_def)


lemma localGet_stamped:
  "LocalCache cd = Some m \<Longrightarrow> m key = Some (b @ s) \<Longrightarrow> length s = 4 \<Longrightarrow> b \<noteq> [] \<Longrightarrow>
   LocalCacheTTL cd \<noteq> 0 \<Longrightarrow>
     localGet ext key cd =
       (if clock cd - decodeTime ext s > LocalCacheTTL cd then Ok ([], False) else Ok (b, True))"
  by (simp add: localGet_def)

lemma timestamp_unmarshal: "timestamp (ext\<lparr>unmarshal := u\<rparr>) t = timestamp ext t"
  by (simp add: timestamp_def)

lemma localSet_unmarshal:
  "localSet (ext\<lparr>unmarshal := u\<rparr>) key b cd = localSet ext key b cd"
  by (simp add: localSet_def timestamp_unmarshal cong: option.case_cong if_cong)

lemma localGet_unmarshal:
  "localGet (ext\<lparr>unmarshal := u\<rparr>) key cd = localGet ext key cd"
  by (simp add: localGet_def cong: option.case_cong if_cong)

lemma getBytes_unmarshal:
  "getBytes (ext\<lparr>unmarshal := u\<rparr>) key cd = getBytes ext key cd"
  by (simp add: getBytes_def localSet_unmarshal localGet_unmarshal
      cong: option.case_cong res.case_cong prod.case_cong sum.case_cong if_cong)

lemma cache_set_unmarshal:
  "cache_set (ext\<lparr>unmarshal := u\<rparr>) key val e cd = cache_set ext key val e cd"
  by (simp add: cache_set_def localSet_unmarshal
      cong: option.case_cong res.case_cong prod.case_cong sum.case_cong if_cong)

lemma getSetItemBytesOnce_unmarshal:
  "getSetItemBytesOnce (ext\<lparr>unmarshal := u\<rparr>) item cd = getSetItemBytesOnce ext item cd"
  by (simp add: getSetItemBytesOnce_def localGet_unmarshal getBytes_unmarshal
      cache_set_unmarshal
      cong: option.case_cong res.case_cong prod.case_cong sum.case_cong if_cong)

lemma getBytes_no_tier:
  "Redis cd = None \<Longrightarrow> LocalCache cd = None \<Longrightarrow>
   getBytes ext key cd = (Err errRedisLocalCacheNil, cd)"
  by (simp add: getBytes_def)

lemma cache_set_no_tier:
  "Redis cd = None \<Longrightarrow> LocalCache cd = None \<Longrightarrow>
   cache_set ext key val e cd =
     (case marshal ext val of
        Inl err \<Rightarrow> (Err err, cd)
      | Inr b \<Rightarrow> (Err errRedisLocalCacheNil, cd))"
  by (simp add: cache_set_def split: sum.splits)

lemma getSetItemBytesOnce_no_tier:
  "Redis cd = None \<Longrightarrow> LocalCache cd = None \<Longrightarrow>
   getSetItemBytesOnce ext item cd =
     (case Func item of
        None \<Rightarrow> (Panic ''nil pointer dereference'', cd)
      | Some f \<Rightarrow>
          (case f (world cd) of
             (Inl err, w) \<Rightarrow> (Err err, cd\<lparr>world := w\<rparr>)
           | (Inr val, w) \<Rightarrow>
               (case marshal ext val of
                  Inl err \<Rightarrow> (Err err, cd\<lparr>world := w\<rparr>)
                | Inr b \<Rightarrow> (Err errRedisLocalCacheNil, cd\<lparr>world := w\<rparr>))))"
  by (simp add: getSetItemBytesOnce_def getBytes_no_tier cache_set_no_tier
      split: option.splits prod.splits sum.splits)

lemma world_localSet: "localSet ext key b cd = Ok cd1 \<Longrightarrow> world cd1 = world cd"
  by (auto simp add: localSet_def Let_def split: option.splits)

lemma world_getBytes: "world (snd (getBytes ext key cd)) = world cd"
  by (auto simp add: getBytes_def Let_def dest: world_localSet
      split: res.splits prod.splits option.splits sum.splits)

lemma Delete_remote:
  "Redis (snd (Delete ext key cd)) = map_option (\<lambda>r. snd (redis_Del ext key r)) (Redis cd)"
  by (simp add: Delete_def Let_def split: option.splits prod.splits sum.splits)




lemma cache_set_remote:
  assumes "marshal ext val = Inr b" and "Redis cd = Some r"
  shows "cache_set ext key val e cd =
     (let cd1 = (case LocalCache cd of
                   None \<Rightarrow> cd
                 | Some m \<Rightarrow>
                     cd\<lparr>LocalCache := Some (m(key \<mapsto>
                          (if 0 < LocalCacheTTL cd then b @ timestamp ext (clock cd)
                           else b)))\<rparr>)
      in case redis_Set ext key b e r of
           (None, r') \<Rightarrow> (Ok b, cd1\<lparr>Redis := Some r'\<rparr>)
         | (Some err, r') \<Rightarrow> (Err err, cd1\<lparr>Redis := Some r'\<rparr>))"
proof (cases "LocalCache cd")
  case None
  then show ?thesis
    using assms by (simp add: cache_set_def split: prod.splits option.splits)
next
  case (Some m)
  then show ?thesis
    using assms by (simp add: cache_set_def localSet_Ok split: prod.splits option.splits)
qed

lemma getSetItemBytesOnce_leader:
  assumes "LocalCache cd = None \<or> localGet ext (Key item) cd = Ok (lb, False)"
  shows "getSetItemBytesOnce ext item cd =
      (case getBytes ext (Key item) cd of
         (Panic p, c) \<Rightarrow> (Panic p, c)
       | (Ok b', c) \<Rightarrow> (Ok (b', True), c)
       | (Err e', c) \<Rightarrow>
           (case Func item of
              None \<Rightarrow> (Panic ''nil pointer dereference'', c)
            | Some f \<Rightarrow>
                (case f (world c) of
                   (Inl err, w) \<Rightarrow> (Err err, c\<lparr>world := w\<rparr>)
                 | (Inr val, w) \<Rightarrow>
                     (case cache_set ext (Key item) val (item_exp item) (c\<lparr>world := w\<rparr>) of
                        (Panic p, cd2) \<Rightarrow> (Panic p, cd2)
                      | (Err e2, cd2) \<Rightarrow> (Err e2, cd2)
                      | (Ok b2, cd2) \<Rightarrow> (Ok (b2, False), cd2)))))"
  using assms
proof
  assume "LocalCache cd = None"
  then show ?thesis
    by (simp add: getSetItemBytesOnce_def split: prod.splits res.splits)
next
  assume a: "localGet ext (Key item) cd = Ok (lb, False)"
  then have "LocalCache cd \<noteq> None"
    by (cases "LocalCache cd") (simp_all add: localGet_def)
  then show ?thesis
    using a by (simp add: getSetItemBytesOnce_def split: prod.splits res.splits)
qed

section \<open>Expiration of remote writes\<close>

text \<open>
  C4. The expiration \<^verbatim>\<open>Item.exp\<close> resolves from the requested TTL is 0 (no
  expiration) for a negative TTL, one hour (3600000000000 ns) for a TTL from zero up to,
  but not including, one second (1000000000 ns), and the TTL itself from one second on.
  Every write to the remote store carries exactly this expiration, with the serialized
  value, whatever the remote store then answers: the write of \<^verbatim>\<open>Set\<close>, whether the
  value is the item's own or comes from its producer, and the write of \<^verbatim>\<open>Once\<close>
  after its producer has run.
\<close>

theorem remote_write_expiration:
  assumes "marshal ext val = Inr b"
  shows "item_exp item =
           (if TTL item < 0 then 0
            else if TTL item < 1000000000 then 3600000000000
            else TTL item) \<and>
         (item_value item (world cd) = (Inr val, w) \<and> Redis cd = Some r \<longrightarrow>
            Cache_Set ext item cd =
              (let cd1 = (case LocalCache cd of
                            None \<Rightarrow> cd\<lparr>world := w\<rparr>
                          | Some m \<Rightarrow>
                              cd\<lparr>world := w, LocalCache := Some (m(Key item \<mapsto>
                                   (if 0 < LocalCacheTTL cd then b @ timestamp ext (clock cd)
                                    else b)))\<rparr>)
               in case redis_Set ext (Key item) b (item_exp item) r of
                    (None, r') \<Rightarrow> (Ok (), cd1\<lparr>Redis := Some r'\<rparr>)
                  | (Some err, r') \<Rightarrow> (Err err, cd1\<lparr>Redis := Some r'\<rparr>))) \<and>
         ((LocalCache cd = None \<or> localGet ext (Key item) cd = Ok (lb, False)) \<and>
            getBytes ext (Key item) cd = (Err e, cd') \<and> Func item = Some f \<and>
            f (world cd') = (Inr val, w) \<and> Redis cd' = Some r \<longrightarrow>
            getSetItemBytesOnce ext item cd =
              (let cd1 = (case LocalCache cd' of
                            None \<Rightarrow> cd'\<lparr>world := w\<rparr>
                          | Some m \<Rightarrow>
                              cd'\<lparr>world := w, LocalCache := Some (m(Key item \<mapsto>
                                   (if 0 < LocalCacheTTL cd' then b @ timestamp ext (clock cd')
                                    else b)))\<rparr>)
               in case redis_Set ext (Key item) b (item_exp item) r of
                    (None, r') \<Rightarrow> (Ok (b, False), cd1\<lparr>Redis := Some r'\<rparr>)
                  | (Some err, r') \<Rightarrow> (Err err, cd1\<lparr>Redis := Some r'\<rparr>)))"
proof -
  have exp: "item_exp item =
      (if TTL item < 0 then 0 else if TTL item < 1000000000 then 3600000000000 else TTL item)"
    by (simp add: item_exp_def time_Second_def time_Hour_def time_Minute_def)
  have set: "Cache_Set ext item cd =
      (let cd1 = (case LocalCache cd of
                    None \<Rightarrow> cd\<lparr>world := w\<rparr>
                  | Some m \<Rightarrow>
                      cd\<lparr>world := w, LocalCache := Some (m(Key item \<mapsto>
                           (if 0 < LocalCacheTTL cd then b @ timestamp ext (clock cd)
                            else b)))\<rparr>)
       in case redis_Set ext (Key item) b (item_exp item) r of
            (None, r') \<Rightarrow> (Ok (), cd1\<lparr>Redis := Some r'\<rparr>)
          | (Some err, r') \<Rightarrow> (Err err, cd1\<lparr>Redis := Some r'\<rparr>))"
    if "item_value item (world cd) = (Inr val, w)" and "Redis cd = Some r"
  proof -
    have "Redis (cd\<lparr>world := w\<rparr>) = Some r" using that(2) by simp
    from cache_set_remote [OF assms this, of "Key item" "item_exp item"] that(1)
    show ?thesis
      by (simp add: Cache_Set_def Let_def split: prod.splits option.splits)
  qed
  have once: "getSetItemBytesOnce ext item cd =
      (let cd1 = (case LocalCache cd' of
                    None \<Rightarrow> cd'\<lparr>world := w\<rparr>
                  | Some m \<Rightarrow>
                      cd'\<lparr>world := w, LocalCache := Some (m(Key item \<mapsto>
                           (if 0 < LocalCacheTTL cd' then b @ timestamp ext (clock cd')
                            else b)))\<rparr>)
       in case redis_Set ext (Key item) b (item_exp item) r of
            (None, r') \<Rightarrow> (Ok (b, False), cd1\<lparr>Redis := Some r'\<rparr>)
          | (Some err, r') \<Rightarrow> (Err err, cd1\<lparr>Redis := Some r'\<rparr>))"
    if "LocalCache cd = None \<or> localGet ext (Key item) cd = Ok (lb, False)"
      and "getBytes ext (Key item) cd = (Err e, cd')" and "Func item = Some f"
      and "f (world cd') = (Inr val, w)" and "Redis cd' = Some r"
  proof -
    have "Redis (cd'\<lparr>world := w\<rparr>) = Some r" using that(5) by simp
    from cache_set_remote [OF assms this, of "Key item" "item_exp item"] that(2,3,4)
    show ?thesis
      by (simp add: getSetItemBytesOnce_leader [OF that(1)] Let_def
          split: prod.splits option.splits)
  qed
  show ?thesis using exp set once by blast
qed

theorem remote_write_expiration_witness:
  "remote_entry ''k'' (snd (Cache_Set mem_ext
      \<lparr>Key = ''k'', Value = Some [7], TTL = - 1, Func = None\<rparr> remote_only))
     = Some ([7], 0) \<and>
   remote_entry ''k'' (snd (Cache_Set mem_ext
      \<lparr>Key = ''k'', Value = Some [7], TTL = 0, Func = None\<rparr> remote_only))
     = Some ([7], 3600000000000) \<and>
   remote_entry ''k'' (snd (Cache_Set mem_ext
      \<lparr>Key = ''k'', Value = Some [7], TTL = 999999999, Func = None\<rparr> remote_only))
     = Some ([7], 3600000000000) \<and>
   remote_entry ''k'' (snd (Cache_Set mem_ext
      \<lparr>Key = ''k'', Value = Some [7], TTL = 1000000000, Func = None\<rparr> remote_only))
     = Some ([7], 1000000000) \<and>
   remote_entry ''k'' (snd (Cache_Set mem_ext
      \<lparr>Key = ''k'', Value = None, TTL = 0, Func = Some counting_Func\<rparr> remote_only))
     = Some ([42], 3600000000000) \<and>
   remote_entry ''k'' (snd (getSetItemBytesOnce mem_ext
      \<lparr>Key = ''k'', Value = Some [], TTL = - 1, Func = Some counting_Func\<rparr> remote_only))
     = Some ([42], 0) \<and>
   remote_entry ''k'' (snd (getSetItemBytesOnce mem_ext
      \<lparr>Key = ''k'', Value = Some [], TTL = 5, Func = Some counting_Func\<rparr> remote_only))
     = Some ([42], 3600000000000)"
proof -
  have m7: "marshal mem_ext (Some [7]) = Inr [7]"
    and m42: "marshal mem_ext (Some [42]) = Inr [42]"
    by (simp_all add: standin_defs)
  have ro: "Redis remote_only = Some Map.empty" "LocalCache remote_only = None"
    "world remote_only = 0"
    by (simp_all add: standin_defs)
  have gb: "getBytes mem_ext ''k'' remote_only = (Err ErrCacheMiss, remote_only)"
    by (simp add: getBytes_def standin_defs)
  have f: "counting_Func 0 = (Inr (Some [42]), 1)"
    by (simp add: standin_defs)
  have v: "item_value \<lparr>Key = ''k'', Value = Some [7], TTL = ttl, Func = None\<rparr> 0
      = (Inr (Some [7]), 0 :: nat)" for ttl
    by (simp add: item_value_def)
  have vf: "item_value \<lparr>Key = ''k'', Value = None, TTL = 0, Func = Some counting_Func\<rparr> 0
      = (Inr (Some [42]), 1)"
    by (simp add: item_value_def f)
  note a = remote_write_expiration [OF m7, where cd = remote_only and r = Map.empty and w = 0]
  note b = remote_write_expiration [OF m42, where cd = remote_only and r = Map.empty and w = 1
      and cd' = remote_only and e = ErrCacheMiss and f = counting_Func]
  show ?thesis
    using
      a [of "\<lparr>Key = ''k'', Value = Some [7], TTL = - 1, Func = None\<rparr>"]
      a [of "\<lparr>Key = ''k'', Value = Some [7], TTL = 0, Func = None\<rparr>"]
      a [of "\<lparr>Key = ''k'', Value = Some [7], TTL = 999999999, Func = None\<rparr>"]
      a [of "\<lparr>Key = ''k'', Value = Some [7], TTL = 1000000000, Func = None\<rparr>"]
      b [of "\<lparr>Key = ''k'', Value = None, TTL = 0, Func = Some counting_Func\<rparr>"]
      b [of "\<lparr>Key = ''k'', Value = Some [], TTL = - 1, Func = Some counting_Func\<rparr>"]
      b [of "\<lparr>Key = ''k'', Value = Some [], TTL = 5, Func = Some counting_Func\<rparr>"]
    by (simp add: ro gb f v vf Let_def)
       (simp add: mem_ext_def mem_Set_def remote_entry_def)
qed

section \<open>The stamped payload and the unreachable branch\<close>

text \<open>
  C5. The premise of the panic in \<^verbatim>\<open>localGet\<close> is that under a positive
  staleness window every entry \<^verbatim>\<open>localSet\<close> stores is longer than 4 bytes. It is
  not: for the empty payload, with a window of one minute, the stored entry is the
  4-byte timestamp alone (here written at second 5), and reading the key back reaches
  the branch marked \<^verbatim>\<open>not reached\<close>.
\<close>

theorem empty_payload_reaches_panic:
  "LocalCacheTTL (local_only 60000000000 5000000000) = 60000000000 \<and>
   and_then (localSet mem_ext ''k'' [] (local_only 60000000000 5000000000))
     (Ok \<circ> stored ''k'') = Ok (Some [5, 0, 0, 0]) \<and>
   and_then (localSet mem_ext ''k'' [] (local_only 60000000000 5000000000))
     (localGet mem_ext ''k'') = Panic ''not reached''"
  by (simp add: standin_defs localSet_def localGet_def timestamp_def Let_def)

text \<open>
  The same holds for every codec and every positive window: the stored entry is the
  payload and four more bytes, so the empty payload always reaches the panic, at
  whatever instant it is read, and a non-empty payload never does.
\<close>

lemma stamped_payload_length:
  assumes "LocalCache cd = Some m" and "0 < LocalCacheTTL cd" and "localSet ext key b cd = Ok cd1"
  shows "\<exists>s. stored key cd1 = Some s \<and> length s = length b + 4"
  using assms by (auto simp add: localSet_Ok stored_def length_timestamp)

lemma empty_payload_always_panics:
  assumes "LocalCache cd = Some m" and "0 < LocalCacheTTL cd"
    and "localSet ext key [] cd = Ok cd1"
  shows "localGet ext key (at_time now cd1) = Panic ''not reached''"
  using assms by (auto simp add: localSet_Ok localGet_def at_time_def length_timestamp)

lemma nonempty_payload_never_panics:
  assumes "LocalCache cd = Some m" and "0 \<le> LocalCacheTTL cd" and "b \<noteq> []"
    and "localSet ext key b cd = Ok cd1"
  shows "localGet ext key (at_time now cd1) \<noteq> Panic p"
  using assms
  by (cases "0 < LocalCacheTTL cd")
     (auto simp add: localSet_Ok localGet_def at_time_def length_timestamp split: if_splits)

section \<open>Delete\<close>

text \<open>
  C6. With a remote store configured, \<^verbatim>\<open>Delete\<close> removes the key from the local
  store whatever the remote store answers, an error included. When the remote store
  reports the number of keys it removed, \<^verbatim>\<open>Delete\<close> returns the cache-miss error
  for zero and no error for any other count; when the remote store fails, \<^verbatim>\<open>Delete\<close>
  returns its error. In each case the returned cache no longer holds the key locally.
\<close>

theorem Delete_remote_count:
  assumes "Redis cd = Some r"
  shows "Delete ext key cd =
           (case redis_Del ext key r of
              (Inl err, r') \<Rightarrow>
                (Some err,
                 (case LocalCache cd of
                    Some m \<Rightarrow> cd\<lparr>LocalCache := Some (m(key := None))\<rparr>
                  | None \<Rightarrow> cd)\<lparr>Redis := Some r'\<rparr>)
            | (Inr n, r') \<Rightarrow>
                (if n = 0 then Some ErrCacheMiss else None,
                 (case LocalCache cd of
                    Some m \<Rightarrow> cd\<lparr>LocalCache := Some (m(key := None))\<rparr>
                  | None \<Rightarrow> cd)\<lparr>Redis := Some r'\<rparr>)) \<and>
         stored key (snd (Delete ext key cd)) = None"
  using assms
  by (simp add: Delete_def Let_def stored_def split: option.splits prod.splits sum.splits)

theorem Delete_remote_count_witness:
  "stored ''k'' (with_local ''k'' [9] two_tier) = Some [9] \<and>
   remote_entry ''k'' (with_local ''k'' [9] two_tier) = None \<and>
   fst (Delete mem_ext ''k'' (with_local ''k'' [9] two_tier)) = Some ErrCacheMiss \<and>
   stored ''k'' (snd (Delete mem_ext ''k'' (with_local ''k'' [9] two_tier))) = None \<and>
   fst (Delete mem_ext ''k'' (with_remote ''k'' [9] two_tier)) = None \<and>
   remote_entry ''k'' (snd (Delete mem_ext ''k'' (with_remote ''k'' [9] two_tier))) = None \<and>
   fst (Delete flaky_ext ''k'' (with_local ''k'' [9] two_tier)) = Some (Failure ''i/o timeout'') \<and>
   stored ''k'' (snd (Delete flaky_ext ''k'' (with_local ''k'' [9] two_tier))) = None"
proof -
  have r: "Redis (with_local ''k'' [9] two_tier) = Some Map.empty"
    "Redis (with_remote ''k'' [9] two_tier) = Some [''k'' \<mapsto> ([9], 0)]"
    by (simp_all add: standin_defs)
  have d: "redis_Del mem_ext ''k'' Map.empty = (Inr 0, Map.empty)"
    "redis_Del mem_ext ''k'' [''k'' \<mapsto> ([9], 0)] = (Inr 1, Map.empty)"
    "redis_Del flaky_ext ''k'' Map.empty = (Inl (Failure ''i/o timeout''), Map.empty)"
    by (simp_all add: standin_defs)
  have s: "stored ''k'' (with_local ''k'' [9] two_tier) = Some [9]"
    "remote_entry ''k'' (with_local ''k'' [9] two_tier) = None"
    by (simp_all add: standin_defs)
  show ?thesis
    using Delete_remote_count [OF r(1), of mem_ext "''k''"]
      Delete_remote_count [OF r(2), of mem_ext "''k''"]
      Delete_remote_count [OF r(1), of flaky_ext "''k''"]
    by (simp add: d s) (simp add: standin_defs)
qed

section \<open>The staleness window of the local tier\<close>

text \<open>
  C3. \<^verbatim>\<open>Options.init\<close> turns only the window -1 into the never-stale marker 0; a
  window of -2 stays as it is. \<^verbatim>\<open>localSet\<close>, which stamps under a positive window
  only, then stores the payload as it is, while \<^verbatim>\<open>localGet\<close>, which skips the
  timestamp for the marker 0 only, reads the entry as a stamped one. A 3-byte payload
  reaches the branch marked \<^verbatim>\<open>not reached\<close>; of a 6-byte payload the last four
  bytes are decoded as the write instant, so that the entry reads as a miss at second
  10, and as the first two bytes of the payload at the instant of the write.
\<close>

theorem negative_window_reaches_panic:
  "LocalCacheTTL (local_only (- 2) 0) = - 2 \<and>
   and_then (localSet mem_ext ''k'' [1, 2, 3] (local_only (- 2) 0)) (Ok \<circ> stored ''k'')
     = Ok (Some [1, 2, 3]) \<and>
   and_then (localSet mem_ext ''k'' [1, 2, 3] (local_only (- 2) 0)) (localGet mem_ext ''k'')
     = Panic ''not reached'' \<and>
   and_then (localSet mem_ext ''k'' [1, 2, 3, 4, 5, 6] (local_only (- 2) 0))
     (localGet mem_ext ''k'' \<circ> at_time 10000000000) = Ok ([], False) \<and>
   and_then (localSet mem_ext ''k'' [1, 2, 3, 4, 5, 6] (local_only (- 2) 0))
     (localGet mem_ext ''k'') = Ok ([1, 2], True)"
  by (simp add: standin_defs localSet_def localGet_def timestamp_def Let_def)

text \<open>
  What holds of the three regimes, for a cache built by \<^verbatim>\<open>New\<close> with a local
  store: a configured window of -1 stores the payload without a timestamp and reads it
  back as present at every later instant; a window of zero becomes one minute
  (60000000000 ns); a positive window is kept as it is. Under a zero or positive
  configured window a non-empty payload is stored with the 4-byte timestamp of the write
  appended, and a read at instant \<open>now\<close> is a miss exactly when \<open>now\<close> minus the write
  instant, as the timestamp codec decodes it, exceeds the window, and returns the
  original payload otherwise.
\<close>

lemma staleness_window_regimes:
  assumes "LocalCache opt = Some m" and "cd = New opt written w"
    and "localSet ext key b cd = Ok cd1"
  shows
   "(LocalCacheTTL opt = - 1 \<longrightarrow>
       stored key cd1 = Some b \<and> localGet ext key (at_time now cd1) = Ok (b, True)) \<and>
    (LocalCacheTTL opt = 0 \<longrightarrow> LocalCacheTTL cd = 60000000000) \<and>
    (0 < LocalCacheTTL opt \<longrightarrow> LocalCacheTTL cd = LocalCacheTTL opt) \<and>
    (0 \<le> LocalCacheTTL opt \<and> b \<noteq> [] \<longrightarrow>
       stored key cd1 = Some (b @ timestamp ext written) \<and>
       localGet ext key (at_time now cd1) =
         (if now - decodeTime ext (timestamp ext written) > LocalCacheTTL cd then Ok ([], False)
          else Ok (b, True)))"
proof -
  have lc: "LocalCache cd = Some m" and ck: "clock cd = written"
    using assms(1,2) by (simp_all add: New_fields)
  have ttl: "LocalCacheTTL cd =
     (if LocalCacheTTL opt = - 1 then 0
      else if LocalCacheTTL opt = 0 then 60000000000
      else LocalCacheTTL opt)"
    using assms(2) by (simp add: New_LocalCacheTTL)
  have cd1: "cd1 = cd\<lparr>LocalCache :=
      Some (m(key \<mapsto> (if 0 < LocalCacheTTL cd then b @ timestamp ext (clock cd) else b)))\<rparr>"
    using assms(3) localSet_Ok [OF lc, of ext key b] by simp
  have never: "LocalCacheTTL opt = - 1 \<Longrightarrow>
      stored key cd1 = Some b \<and> localGet ext key (at_time now cd1) = Ok (b, True)"
    using ttl by (simp add: cd1 stored_def at_time_def localGet_def)
  have pos: "0 \<le> LocalCacheTTL opt \<Longrightarrow> b \<noteq> [] \<Longrightarrow>
      stored key cd1 = Some (b @ timestamp ext written) \<and>
       localGet ext key (at_time now cd1) =
         (if now - decodeTime ext (timestamp ext written) > LocalCacheTTL cd then Ok ([], False)
          else Ok (b, True))"
  proof -
    assume a: "0 \<le> LocalCacheTTL opt" "b \<noteq> []"
    then have p: "0 < LocalCacheTTL cd" using ttl by (simp split: if_splits)
    have st: "stored key cd1 = Some (b @ timestamp ext written)"
      using p ck by (simp add: cd1 stored_def)
    have "localGet ext key (at_time now cd1) =
        (if clock (at_time now cd1) - decodeTime ext (timestamp ext written) > LocalCacheTTL (at_time now cd1)
         then Ok ([], False) else Ok (b, True))"
      by (rule localGet_stamped [where m = "m(key \<mapsto> b @ timestamp ext written)"])
         (use p ck a in \<open>simp_all add: cd1 at_time_def length_timestamp\<close>)
    then show ?thesis using st by (simp add: at_time_def cd1)
  qed
  show ?thesis using never pos ttl by simp
qed

lemma staleness_window_regimes_instances:
  "and_then (localSet mem_ext ''k'' [1, 2, 3] (local_only 50000000 5000000000))
     (localGet mem_ext ''k'' \<circ> at_time 5020000000) = Ok ([1, 2, 3], True) \<and>
   and_then (localSet mem_ext ''k'' [1, 2, 3] (local_only 50000000 5000000000))
     (localGet mem_ext ''k'' \<circ> at_time 5100000000) = Ok ([], False) \<and>
   and_then (localSet mem_ext ''k'' [1, 2, 3] (local_only 0 5000000000))
     (localGet mem_ext ''k'' \<circ> at_time 65000000000) = Ok ([1, 2, 3], True) \<and>
   and_then (localSet mem_ext ''k'' [1, 2, 3] (local_only 0 5000000000))
     (localGet mem_ext ''k'' \<circ> at_time 65000000001) = Ok ([], False) \<and>
   and_then (localSet mem_ext ''k'' [1, 2, 3] (local_only (- 1) 5000000000))
     (localGet mem_ext ''k'' \<circ> at_time 999000000000) = Ok ([1, 2, 3], True)"
proof -
  have lc: "LocalCache (local_only ttl 5000000000) = Some Map.empty" for ttl
    by (simp add: local_only_def New_def Let_def Options_init_def)
  have new: "local_only ttl 5000000000 =
      New \<lparr>Redis = None, LocalCache = Some Map.empty, LocalCacheTTL = ttl,
           StatsEnabled = False\<rparr> 5000000000 0" for ttl
    by (simp add: local_only_def)
  have opt: "LocalCache \<lparr>Redis = None :: mem_redis option, LocalCache = Some Map.empty,
      LocalCacheTTL = ttl, StatsEnabled = False\<rparr> = Some Map.empty" for ttl
    by simp
  have ttl: "LocalCacheTTL (local_only ttl 5000000000) =
      (if ttl = - 1 then 0 else if ttl = 0 then 60000000000 else ttl)" for ttl
    by (simp add: local_only_def New_LocalCacheTTL)
  have ck: "clock (local_only ttl 5000000000) = 5000000000" for ttl
    by (simp add: local_only_def New_fields)
  note set = localSet_Ok [OF lc, of mem_ext "''k''" "[1, 2, 3]"]
  note w = staleness_window_regimes [OF opt new set]
  have ts: "timestamp mem_ext 5000000000 = [5, 0, 0, 0]"
    by (simp add: standin_defs timestamp_def)
  have dec: "decodeTime mem_ext [5, 0, 0, 0] = 5000000000"
    by (simp add: standin_defs)
  show ?thesis
    using w [of 50000000 5020000000] w [of 50000000 5100000000]
      w [of 0 65000000000] w [of 0 65000000001] w [of "- 1" 999000000000]
    by (simp add: set and_then_def ts dec ttl ck)
qed

section \<open>Reads that decode nothing\<close>

text \<open>
  C10. When the lookup succeeds and either the target is nil or the payload is empty,
  \<^verbatim>\<open>Get\<close> and \<^verbatim>\<open>Once\<close> return success with the target as it was, whatever the
  decoder is: it is not consulted. \<^verbatim>\<open>Exists\<close> reports exactly whether the
  lookup succeeded, again for every decoder, so no decoding error can surface from it.
  With a nil \<^verbatim>\<open>item.Value\<close>, \<^verbatim>\<open>Once\<close> ends after its single pass through
  \<^verbatim>\<open>getSetItemBytesOnce\<close>, in the cache that pass returned: nothing is deleted and
  nothing is retried.
\<close>

theorem no_decoding_without_target_or_payload:
  "(getBytes ext key cd = (Ok b, cd1) \<and> (target = None \<or> b = []) \<longrightarrow>
      (\<forall>u. Cache_Get (ext\<lparr>unmarshal := u\<rparr>) key target cd = (Ok target, cd1))) \<and>
   (getSetItemBytesOnce ext item cd = (Ok (b, cached), cd2) \<and> (Value item = None \<or> b = []) \<longrightarrow>
      (\<forall>u. Once (ext\<lparr>unmarshal := u\<rparr>) item cd = Some (Ok (Value item), cd2))) \<and>
   (\<forall>u. Exists (ext\<lparr>unmarshal := u\<rparr>) key cd =
      (case getBytes ext key cd of
         (Ok b', c) \<Rightarrow> (Ok True, c)
       | (Err e, c) \<Rightarrow> (Ok False, c)
       | (Panic p, c) \<Rightarrow> (Panic p, c))) \<and>
   (Value item = None \<longrightarrow>
      (\<forall>u. Once (ext\<lparr>unmarshal := u\<rparr>) item cd =
         Some (case getSetItemBytesOnce ext item cd of
                 (Ok x, c) \<Rightarrow> (Ok None, c)
               | (Err e, c) \<Rightarrow> (Err e, c)
               | (Panic p, c) \<Rightarrow> (Panic p, c))))"
proof -
  have get: "getBytes ext key cd = (Ok b, cd1) \<Longrightarrow> target = None \<or> b = [] \<Longrightarrow>
      Cache_Get (ext\<lparr>unmarshal := u\<rparr>) key target cd = (Ok target, cd1)" for u
    by (auto simp add: Cache_Get_def cache_get_def getBytes_unmarshal split: option.splits)
  have once: "getSetItemBytesOnce ext item cd = (Ok (b, cached), cd2) \<Longrightarrow>
      Value item = None \<or> b = [] \<Longrightarrow>
      Once (ext\<lparr>unmarshal := u\<rparr>) item cd = Some (Ok (Value item), cd2)" for u
    by (subst Once.simps) (auto simp add: getSetItemBytesOnce_unmarshal split: option.splits)
  have ex: "Exists (ext\<lparr>unmarshal := u\<rparr>) key cd =
      (case getBytes ext key cd of
         (Ok b', c) \<Rightarrow> (Ok True, c)
       | (Err e, c) \<Rightarrow> (Ok False, c)
       | (Panic p, c) \<Rightarrow> (Panic p, c))" for u
    by (simp add: Exists_def Cache_Get_def cache_get_def getBytes_unmarshal
        split: prod.splits res.splits)
  have nil: "Value item = None \<Longrightarrow>
      Once (ext\<lparr>unmarshal := u\<rparr>) item cd =
         Some (case getSetItemBytesOnce ext item cd of
                 (Ok x, c) \<Rightarrow> (Ok None, c)
               | (Err e, c) \<Rightarrow> (Err e, c)
               | (Panic p, c) \<Rightarrow> (Panic p, c))" for u
    by (subst Once.simps)
       (simp add: getSetItemBytesOnce_unmarshal split: prod.splits res.splits)
  show ?thesis using get once ex nil by blast
qed

theorem no_decoding_without_target_or_payload_witness:
  "fst (getBytes mem_ext ''k'' (with_remote ''k'' [0, 1] remote_only)) = Ok [0, 1] \<and>
   strict_unmarshal [0, 1] [] = Inl (Failure ''cannot decode'') \<and>
   fst (Cache_Get strict_ext ''k'' None (with_remote ''k'' [0, 1] remote_only)) = Ok None \<and>
   fst (Exists strict_ext ''k'' (with_remote ''k'' [0, 1] remote_only)) = Ok True \<and>
   map_option fst
     (Once strict_ext \<lparr>Key = ''k'', Value = None, TTL = 0, Func = Some counting_Func\<rparr>
        (with_remote ''k'' [0, 1] remote_only)) = Some (Ok None) \<and>
   map_option (remote_entry ''k'' \<circ> snd)
     (Once strict_ext \<lparr>Key = ''k'', Value = None, TTL = 0, Func = Some counting_Func\<rparr>
        (with_remote ''k'' [0, 1] remote_only)) = Some (Some ([0, 1], 0))"
proof -
  let ?cd = "with_remote ''k'' [0, 1] remote_only"
  let ?item = "\<lparr>Key = ''k'', Value = None, TTL = 0, Func = Some counting_Func\<rparr>
                :: (bytes, nat) Item"
  have gb: "getBytes mem_ext ''k'' ?cd = (Ok [0, 1], ?cd)"
    by (simp add: getBytes_def standin_defs)
  have gs: "getSetItemBytesOnce mem_ext ?item ?cd = (Ok ([0, 1], True), ?cd)"
    by (simp add: getSetItemBytesOnce_def gb) (simp add: standin_defs)
  have re: "remote_entry ''k'' ?cd = Some ([0, 1], 0)"
    by (simp add: standin_defs)
  show ?thesis
    using no_decoding_without_target_or_payload
      [of mem_ext "''k''" ?cd "[0, 1]" ?cd None ?item True ?cd]
    by (simp add: gb gs re strict_ext_def strict_unmarshal_def)
qed

section \<open>A cache with neither tier\<close>

text \<open>
  C8. When both handles are nil, \<^verbatim>\<open>Get\<close> and \<^verbatim>\<open>Delete\<close> return the
  configuration error and \<^verbatim>\<open>Exists\<close> reports false, leaving the cache as it was.
  \<^verbatim>\<open>Set\<close> and \<^verbatim>\<open>Once\<close> never succeed. \<^verbatim>\<open>Set\<close> returns the error of the
  producer when it consults one (the item has no value) and it fails, else the
  serializer's error when the value cannot be encoded, else the configuration error.
  \<^verbatim>\<open>Once\<close> with a non-nil producer runs it even in this configuration and returns
  its error when it fails, else the serializer's error, else the configuration error.
\<close>

theorem no_tier_operations:
  assumes "Redis cd = None" and "LocalCache cd = None"
  shows "Cache_Get ext key target cd = (Err errRedisLocalCacheNil, cd) \<and>
         Exists ext key cd = (Ok False, cd) \<and>
         Delete ext key cd = (Some errRedisLocalCacheNil, cd) \<and>
         Cache_Set ext item cd =
           (case item_value item (world cd) of
              (Inl err, w) \<Rightarrow> (Err err, cd\<lparr>world := w\<rparr>)
            | (Inr val, w) \<Rightarrow>
                (case marshal ext val of
                   Inl err \<Rightarrow> (Err err, cd\<lparr>world := w\<rparr>)
                 | Inr b \<Rightarrow> (Err errRedisLocalCacheNil, cd\<lparr>world := w\<rparr>))) \<and>
         (\<forall>f. Func item = Some f \<longrightarrow>
            Once ext item cd =
              Some (case f (world cd) of
                      (Inl err, w) \<Rightarrow> (Err err, cd\<lparr>world := w\<rparr>)
                    | (Inr val, w) \<Rightarrow>
                        (case marshal ext val of
                           Inl err \<Rightarrow> (Err err, cd\<lparr>world := w\<rparr>)
                         | Inr b \<Rightarrow> (Err errRedisLocalCacheNil, cd\<lparr>world := w\<rparr>)))) \<and>
         (\<forall>x. fst (Cache_Set ext item cd) \<noteq> Ok x) \<and>
         (\<exists>r cd'. Once ext item cd = Some (r, cd') \<and> (\<forall>x. r \<noteq> Ok x))"
proof -
  have get: "Cache_Get ext key target cd = (Err errRedisLocalCacheNil, cd)"
    using assms by (simp add: Cache_Get_def cache_get_def getBytes_no_tier)
  have ex: "Exists ext key cd = (Ok False, cd)"
    using assms by (simp add: Exists_def Cache_Get_def cache_get_def getBytes_no_tier)
  have del: "Delete ext key cd = (Some errRedisLocalCacheNil, cd)"
    using assms by (simp add: Delete_def)
  have set: "Cache_Set ext item cd =
           (case item_value item (world cd) of
              (Inl err, w) \<Rightarrow> (Err err, cd\<lparr>world := w\<rparr>)
            | (Inr val, w) \<Rightarrow>
                (case marshal ext val of
                   Inl err \<Rightarrow> (Err err, cd\<lparr>world := w\<rparr>)
                 | Inr b \<Rightarrow> (Err errRedisLocalCacheNil, cd\<lparr>world := w\<rparr>)))"
    using assms
    by (simp add: Cache_Set_def cache_set_no_tier split: prod.splits sum.splits)
  have set1: "fst (Cache_Set ext item cd) \<noteq> Ok x" for x
    by (simp add: set split: prod.splits sum.splits)
  have once: "Once ext item cd =
              Some (case f (world cd) of
                      (Inl err, w) \<Rightarrow> (Err err, cd\<lparr>world := w\<rparr>)
                    | (Inr val, w) \<Rightarrow>
                        (case marshal ext val of
                           Inl err \<Rightarrow> (Err err, cd\<lparr>world := w\<rparr>)
                         | Inr b \<Rightarrow> (Err errRedisLocalCacheNil, cd\<lparr>world := w\<rparr>)))"
    if "Func item = Some f" for f
    using assms that
    by (subst Once.simps)
       (simp add: getSetItemBytesOnce_no_tier split: prod.splits sum.splits)
  have once1: "\<exists>r cd'. Once ext item cd = Some (r, cd') \<and> (\<forall>x. r \<noteq> Ok x)"
    using assms
    by (subst Once.simps)
       (simp add: getSetItemBytesOnce_no_tier split: option.splits prod.splits sum.splits)
  show ?thesis using get ex del set set1 once once1 by blast
qed

theorem no_tier_operations_witness:
  "Redis no_tier = None \<and> LocalCache no_tier = None \<and>
   fst (Cache_Get mem_ext ''k'' (Some [1]) no_tier) = Err errRedisLocalCacheNil \<and>
   fst (Exists mem_ext ''k'' no_tier) = Ok False \<and>
   fst (Delete mem_ext ''k'' no_tier) = Some errRedisLocalCacheNil \<and>
   fst (Cache_Set mem_ext \<lparr>Key = ''k'', Value = Some [7], TTL = 0, Func = None\<rparr> no_tier)
     = Err errRedisLocalCacheNil \<and>
   map_option fst
     (Once mem_ext \<lparr>Key = ''k'', Value = Some [], TTL = 0, Func = Some counting_Func\<rparr> no_tier)
     = Some (Err errRedisLocalCacheNil) \<and>
   map_option (world \<circ> snd)
     (Once mem_ext \<lparr>Key = ''k'', Value = Some [], TTL = 0, Func = Some counting_Func\<rparr> no_tier)
     = Some 1 \<and>
   map_option fst
     (Once mem_ext \<lparr>Key = ''k'', Value = Some [], TTL = 0, Func = Some failing_Func\<rparr> no_tier)
     = Some (Err (Failure ''producer failed''))"
proof -
  have r: "Redis no_tier = None" and l: "LocalCache no_tier = None" and w: "world no_tier = 0"
    by (simp_all add: standin_defs)
  note t = no_tier_operations [OF r l, of mem_ext "''k''" "Some [1]"]
  show ?thesis
    using t [of "\<lparr>Key = ''k'', Value = Some [7], TTL = 0, Func = None\<rparr>"]
      t [of "\<lparr>Key = ''k'', Value = Some [], TTL = 0, Func = Some counting_Func\<rparr>"]
      t [of "\<lparr>Key = ''k'', Value = Some [], TTL = 0, Func = Some failing_Func\<rparr>"]
    by (simp add: r l w item_value_def mem_ext_def raw_marshal_def counting_Func_def
        failing_Func_def)
qed

text \<open>
  The configuration is only checked after the producer and the serializer have run: with
  a producer that fails, \<^verbatim>\<open>Set\<close> (on an item without a value) and \<^verbatim>\<open>Once\<close>
  return the producer's error, not the configuration error.
\<close>

theorem no_tier_other_error_counterexample:
  "Redis no_tier = None \<and> LocalCache no_tier = None \<and>
   fst (Cache_Set mem_ext \<lparr>Key = ''k'', Value = None, TTL = 0, Func = Some failing_Func\<rparr> no_tier)
     = Err (Failure ''producer failed'') \<and>
   map_option fst
     (Once mem_ext \<lparr>Key = ''k'', Value = Some [], TTL = 0, Func = Some failing_Func\<rparr> no_tier)
     = Some (Err (Failure ''producer failed''))"
proof (intro conjI)
  show "Redis no_tier = None" and "LocalCache no_tier = None"
    by (simp_all add: standin_defs)
  show "fst (Cache_Set mem_ext \<lparr>Key = ''k'', Value = None, TTL = 0, Func = Some failing_Func\<rparr>
      no_tier) = Err (Failure ''producer failed'')"
    by (simp add: Cache_Set_def item_value_def standin_defs)
  show "map_option fst
     (Once mem_ext \<lparr>Key = ''k'', Value = Some [], TTL = 0, Func = Some failing_Func\<rparr> no_tier)
     = Some (Err (Failure ''producer failed''))"
    by (subst Once.simps) (simp add: getSetItemBytesOnce_def getBytes_def standin_defs)
qed

section \<open>When the producer runs\<close>

text \<open>
  C9. For the caller that passes the local fast path (no local store, or a local miss)
  with a non-nil producer: when the read \<^verbatim>\<open>getBytes\<close> succeeds, its bytes are
  returned as cached and the producer's state is untouched; when the read fails, with
  whatever error (a miss, a transport error of the remote store, the configuration
  error), the error is dropped and the producer runs, and the outcome is the
  producer's error or that of writing its value.
\<close>

theorem producer_runs_on_any_read_failure:
  assumes "LocalCache cd = None \<or> localGet ext (Key item) cd = Ok (lb, False)"
    and "Func item = Some f"
  shows "(getBytes ext (Key item) cd = (Ok b, cd1) \<longrightarrow>
            getSetItemBytesOnce ext item cd = (Ok (b, True), cd1) \<and> world cd1 = world cd) \<and>
         (getBytes ext (Key item) cd = (Err e, cd1) \<longrightarrow>
            getSetItemBytesOnce ext item cd =
              (case f (world cd1) of
                 (Inl err, w) \<Rightarrow> (Err err, cd1\<lparr>world := w\<rparr>)
               | (Inr val, w) \<Rightarrow>
                   (case cache_set ext (Key item) val (item_exp item) (cd1\<lparr>world := w\<rparr>) of
                      (Panic p, cd2) \<Rightarrow> (Panic p, cd2)
                    | (Err e2, cd2) \<Rightarrow> (Err e2, cd2)
                    | (Ok b2, cd2) \<Rightarrow> (Ok (b2, False), cd2))))"
proof -
  have lead: "getSetItemBytesOnce ext item cd =
      (case getBytes ext (Key item) cd of
         (Panic p, c) \<Rightarrow> (Panic p, c)
       | (Ok b', c) \<Rightarrow> (Ok (b', True), c)
       | (Err e', c) \<Rightarrow>
           (case f (world c) of
              (Inl err, w) \<Rightarrow> (Err err, c\<lparr>world := w\<rparr>)
            | (Inr val, w) \<Rightarrow>
                (case cache_set ext (Key item) val (item_exp item) (c\<lparr>world := w\<rparr>) of
                   (Panic p, cd2) \<Rightarrow> (Panic p, cd2)
                 | (Err e2, cd2) \<Rightarrow> (Err e2, cd2)
                 | (Ok b2, cd2) \<Rightarrow> (Ok (b2, False), cd2))))"
    using assms(1)
  proof
    assume "LocalCache cd = None"
    then show ?thesis using assms(2)
      by (simp add: getSetItemBytesOnce_def split: prod.splits res.splits)
  next
    assume a: "localGet ext (Key item) cd = Ok (lb, False)"
    then have "LocalCache cd \<noteq> None" by (cases "LocalCache cd") (simp_all add: localGet_def)
    then show ?thesis using a assms(2)
      by (simp add: getSetItemBytesOnce_def split: prod.splits res.splits)
  qed
  have hit: "getBytes ext (Key item) cd = (Ok b, cd1) \<Longrightarrow>
      getSetItemBytesOnce ext item cd = (Ok (b, True), cd1) \<and> world cd1 = world cd"
    using world_getBytes [of ext "Key item" cd] by (simp add: lead)
  have fail: "getBytes ext (Key item) cd = (Err e, cd1) \<Longrightarrow>
      getSetItemBytesOnce ext item cd =
        (case f (world cd1) of
           (Inl err, w) \<Rightarrow> (Err err, cd1\<lparr>world := w\<rparr>)
         | (Inr val, w) \<Rightarrow>
             (case cache_set ext (Key item) val (item_exp item) (cd1\<lparr>world := w\<rparr>) of
                (Panic p, cd2) \<Rightarrow> (Panic p, cd2)
              | (Err e2, cd2) \<Rightarrow> (Err e2, cd2)
              | (Ok b2, cd2) \<Rightarrow> (Ok (b2, False), cd2)))"
    by (simp add: lead)
  show ?thesis using hit fail by blast
qed

theorem producer_runs_on_any_read_failure_witness:
  "LocalCache remote_only = None \<and>
   getBytes down_ext ''k'' remote_only = (Err (Failure ''i/o timeout''), remote_only) \<and>
   fst (getSetItemBytesOnce down_ext
      \<lparr>Key = ''k'', Value = Some [], TTL = 0, Func = Some counting_Func\<rparr> remote_only)
     = Ok ([42], False) \<and>
   world (snd (getSetItemBytesOnce down_ext
      \<lparr>Key = ''k'', Value = Some [], TTL = 0, Func = Some counting_Func\<rparr> remote_only)) = 1 \<and>
   getBytes mem_ext ''k'' (with_remote ''k'' [5] remote_only)
     = (Ok [5], with_remote ''k'' [5] remote_only) \<and>
   getSetItemBytesOnce mem_ext
      \<lparr>Key = ''k'', Value = Some [], TTL = 0, Func = Some counting_Func\<rparr>
      (with_remote ''k'' [5] remote_only) = (Ok ([5], True), with_remote ''k'' [5] remote_only)"
proof -
  let ?item = "\<lparr>Key = ''k'', Value = Some [], TTL = 0, Func = Some counting_Func\<rparr>
                :: (bytes, nat) Item"
  have l: "LocalCache remote_only = None" "LocalCache (with_remote ''k'' [5] remote_only) = None"
    by (simp_all add: standin_defs)
  have f: "Func ?item = Some counting_Func" by simp
  have g1: "getBytes down_ext ''k'' remote_only = (Err (Failure ''i/o timeout''), remote_only)"
    by (simp add: getBytes_def standin_defs)
  have g2: "getBytes mem_ext ''k'' (with_remote ''k'' [5] remote_only)
     = (Ok [5], with_remote ''k'' [5] remote_only)"
    by (simp add: getBytes_def standin_defs)
  show ?thesis
    using producer_runs_on_any_read_failure
        [OF disjI1 f, of remote_only, OF l(1), of down_ext "[42]" remote_only
          "Failure ''i/o timeout''"]
      producer_runs_on_any_read_failure
        [OF disjI1 f, of "with_remote ''k'' [5] remote_only", OF l(2), of mem_ext "[5]"
          "with_remote ''k'' [5] remote_only"]
    by (simp add: g1 g2 l) (simp add: cache_set_def item_exp_def standin_defs)
qed

text \<open>
  A remote store whose \<^verbatim>\<open>Get\<close> fails with a transport error: the read returns that
  error, and \<^verbatim>\<open>Once\<close> nevertheless runs the producer (its counter goes from 0 to 1)
  and returns the produced value instead of the error.
\<close>

theorem read_failure_counterexample:
  "fst (getBytes down_ext ''k'' remote_only) = Err (Failure ''i/o timeout'') \<and>
   world remote_only = 0 \<and>
   map_option fst
     (Once down_ext \<lparr>Key = ''k'', Value = Some [], TTL = 0, Func = Some counting_Func\<rparr>
        remote_only) = Some (Ok (Some [42])) \<and>
   map_option (world \<circ> snd)
     (Once down_ext \<lparr>Key = ''k'', Value = Some [], TTL = 0, Func = Some counting_Func\<rparr>
        remote_only) = Some 1"
proof (intro conjI)
  show "fst (getBytes down_ext ''k'' remote_only) = Err (Failure ''i/o timeout'')"
    by (simp add: getBytes_def standin_defs)
  show "world remote_only = 0"
    by (simp add: standin_defs)
  show "map_option fst
     (Once down_ext \<lparr>Key = ''k'', Value = Some [], TTL = 0, Func = Some counting_Func\<rparr>
        remote_only) = Some (Ok (Some [42]))"
    by (subst Once.simps)
       (simp add: getSetItemBytesOnce_def getBytes_def cache_set_def item_exp_def standin_defs)
  show "map_option (world \<circ> snd)
     (Once down_ext \<lparr>Key = ''k'', Value = Some [], TTL = 0, Func = Some counting_Func\<rparr>
        remote_only) = Some 1"
    by (subst Once.simps)
       (simp add: getSetItemBytesOnce_def getBytes_def cache_set_def item_exp_def standin_defs)
qed

section \<open>Decoding failures in Once\<close>

text \<open>
  C1. Let \<^verbatim>\<open>getSetItemBytesOnce\<close> return non-empty bytes that fail to decode into
  the (non-nil) target. If the bytes came from the cache, \<^verbatim>\<open>Once\<close> calls
  \<^verbatim>\<open>Delete\<close> and is then the whole \<^verbatim>\<open>Once\<close> run again from the cache
  \<^verbatim>\<open>Delete\<close> left, in which the key is gone from the local store and the remote
  store has been asked to remove it; the error \<^verbatim>\<open>Delete\<close> may return plays no part.
  If the bytes were produced in this call, the decoding error is returned as it is.
\<close>

theorem Once_decode_failure:
  assumes "getSetItemBytesOnce ext item cd = (Ok (b, cached), cd1)"
    and "Value item = Some t" and "b \<noteq> []" and "unmarshal ext b t = Inl err"
  shows "(cached \<longrightarrow>
            Once ext item cd = Once ext item (snd (Delete ext (Key item) cd1)) \<and>
            stored (Key item) (snd (Delete ext (Key item) cd1)) = None \<and>
            Redis (snd (Delete ext (Key item) cd1)) =
              map_option (\<lambda>r. snd (redis_Del ext (Key item) r)) (Redis cd1)) \<and>
         (\<not> cached \<longrightarrow> Once ext item cd = Some (Err err, cd1))"
proof -
  have retry: "cached \<Longrightarrow> Once ext item cd = Once ext item (snd (Delete ext (Key item) cd1))"
    using assms by (subst Once.simps) simp
  have fresh: "\<not> cached \<Longrightarrow> Once ext item cd = Some (Err err, cd1)"
    using assms by (subst Once.simps) simp
  have loc: "stored (Key item) (snd (Delete ext (Key item) cd1)) = None"
    by (simp add: stored_def Delete_local split: option.splits)
  show ?thesis using retry fresh loc Delete_remote by blast
qed

theorem Once_decode_failure_witness:
  "fst (getSetItemBytesOnce strict_ext
      \<lparr>Key = ''k'', Value = Some [], TTL = 0, Func = Some counting_Func\<rparr>
      (with_remote ''k'' [0, 9] two_tier)) = Ok ([0, 9], True) \<and>
   unmarshal strict_ext [0, 9] [] = Inl (Failure ''cannot decode'') \<and>
   map_option fst
     (Once strict_ext \<lparr>Key = ''k'', Value = Some [], TTL = 0, Func = Some counting_Func\<rparr>
        (with_remote ''k'' [0, 9] two_tier)) = Some (Ok (Some [42])) \<and>
   map_option (remote_entry ''k'' \<circ> snd)
     (Once strict_ext \<lparr>Key = ''k'', Value = Some [], TTL = 0, Func = Some counting_Func\<rparr>
        (with_remote ''k'' [0, 9] two_tier)) = Some (Some ([42], 3600000000000)) \<and>
   fst (getSetItemBytesOnce strict_ext
      \<lparr>Key = ''k'', Value = Some [], TTL = 0, Func = Some corrupt_Func\<rparr> two_tier)
     = Ok ([0, 1], False) \<and>
   map_option fst
     (Once strict_ext \<lparr>Key = ''k'', Value = Some [], TTL = 0, Func = Some corrupt_Func\<rparr>
        two_tier) = Some (Err (Failure ''cannot decode''))"
proof -
  let ?item = "\<lparr>Key = ''k'', Value = Some [], TTL = 0, Func = Some counting_Func\<rparr>
                :: (bytes, nat) Item"
  let ?bad = "\<lparr>Key = ''k'', Value = Some [], TTL = 0, Func = Some corrupt_Func\<rparr>
                :: (bytes, nat) Item"
  let ?cd = "with_remote ''k'' [0, 9] two_tier"
  obtain cd1 where g1: "getSetItemBytesOnce strict_ext ?item ?cd = (Ok ([0, 9], True), cd1)"
    by (simp add: getSetItemBytesOnce_def getBytes_def localGet_def localSet_def standin_defs)
  obtain cd2 where g2: "getSetItemBytesOnce strict_ext ?bad two_tier = (Ok ([0, 1], False), cd2)"
    by (simp add: getSetItemBytesOnce_def getBytes_def localGet_def localSet_def cache_set_def
        item_exp_def standin_defs)
  have u1: "unmarshal strict_ext [0, 9] [] = Inl (Failure ''cannot decode'')"
    and u2: "unmarshal strict_ext [0, 1] [] = Inl (Failure ''cannot decode'')"
    by (simp_all add: standin_defs)
  note h1 = Once_decode_failure [OF g1 _ _ u1]
  note h2 = Once_decode_failure [OF g2 _ _ u2]
  have cd1: "snd (getSetItemBytesOnce strict_ext ?item ?cd) = cd1" using g1 by simp
  have r1: "map_option fst (Once strict_ext ?item (snd (Delete strict_ext ''k'' cd1)))
      = Some (Ok (Some [42]))"
    unfolding cd1 [symmetric]
    by (subst Once.simps)
       (simp add: getSetItemBytesOnce_def getBytes_def localGet_def localSet_def cache_set_def
         Delete_def item_exp_def standin_defs)
  have r2: "map_option (remote_entry ''k'' \<circ> snd)
        (Once strict_ext ?item (snd (Delete strict_ext ''k'' cd1)))
      = Some (Some ([42], 3600000000000))"
    unfolding cd1 [symmetric]
    by (subst Once.simps)
       (simp add: getSetItemBytesOnce_def getBytes_def localGet_def localSet_def cache_set_def
         Delete_def item_exp_def standin_defs)
  show ?thesis
    using h1 h2 by (simp add: g1 g2 u1 r1 r2)
qed

text \<open>
  A key held, undecodable, by the local store only, and a remote store whose \<^verbatim>\<open>Del\<close>
  fails with a transport error: \<^verbatim>\<open>Delete\<close> returns that error, and \<^verbatim>\<open>Once\<close>
  still runs again, finds nothing, runs the producer and returns its value; the
  decoding error is not returned.
\<close>

theorem failed_delete_counterexample:
  "fst (getSetItemBytesOnce flaky_ext
      \<lparr>Key = ''k'', Value = Some [], TTL = 0, Func = Some counting_Func\<rparr>
      (with_local ''k'' [0, 9] two_tier)) = Ok ([0, 9], True) \<and>
   unmarshal flaky_ext [0, 9] [] = Inl (Failure ''cannot decode'') \<and>
   fst (Delete flaky_ext ''k'' (with_local ''k'' [0, 9] two_tier))
     = Some (Failure ''i/o timeout'') \<and>
   map_option fst
     (Once flaky_ext \<lparr>Key = ''k'', Value = Some [], TTL = 0, Func = Some counting_Func\<rparr>
        (with_local ''k'' [0, 9] two_tier)) = Some (Ok (Some [42]))"
proof (intro conjI)
  let ?item = "\<lparr>Key = ''k'', Value = Some [], TTL = 0, Func = Some counting_Func\<rparr>
                :: (bytes, nat) Item"
  let ?cd = "with_local ''k'' [0, 9] two_tier"
  have g: "getSetItemBytesOnce flaky_ext ?item ?cd = (Ok ([0, 9], True), ?cd)"
    by (simp add: getSetItemBytesOnce_def localGet_def standin_defs)
  show "fst (getSetItemBytesOnce flaky_ext ?item ?cd) = Ok ([0, 9], True)"
    by (simp add: g)
  show "unmarshal flaky_ext [0, 9] [] = Inl (Failure ''cannot decode'')"
    by (simp add: standin_defs)
  show "fst (Delete flaky_ext ''k'' ?cd) = Some (Failure ''i/o timeout'')"
    by (simp add: Delete_def standin_defs)
  have retry: "Once flaky_ext ?item ?cd = Once flaky_ext ?item (snd (Delete flaky_ext ''k'' ?cd))"
    by (subst Once.simps) (simp add: g, simp add: standin_defs)
  have "map_option fst (Once flaky_ext ?item (snd (Delete flaky_ext ''k'' ?cd)))
      = Some (Ok (Some [42]))"
    by (subst Once.simps)
       (simp add: getSetItemBytesOnce_def getBytes_def localGet_def localSet_def cache_set_def
         Delete_def item_exp_def standin_defs)
  then show "map_option fst (Once flaky_ext ?item ?cd) = Some (Ok (Some [42]))"
    by (simp add: retry)
qed

text \<open>
  When the remote store holds the undecodable entry and its \<^verbatim>\<open>Del\<close> keeps failing,
  each retry starts from the very cache the previous one started from, and \<^verbatim>\<open>Once\<close>
  never returns.
\<close>

lemma Once_never_returns:
  "Once flaky_ext \<lparr>Key = ''k'', Value = Some [], TTL = 0, Func = Some counting_Func\<rparr>
     (with_remote ''k'' [0, 9] remote_only) = None"
proof -
  let ?item = "\<lparr>Key = ''k'', Value = Some [], TTL = 0, Func = Some counting_Func\<rparr>
                :: (bytes, nat) Item"
  let ?cd = "with_remote ''k'' [0, 9] remote_only"
  have g: "getSetItemBytesOnce flaky_ext ?item ?cd = (Ok ([0, 9], True), ?cd)"
    by (simp add: getSetItemBytesOnce_def getBytes_def standin_defs)
  have d: "snd (Delete flaky_ext ''k'' ?cd) = ?cd"
    by (simp add: Delete_def standin_defs)
  have u: "unmarshal flaky_ext [0, 9] [] = Inl (Failure ''cannot decode'')"
    by (simp add: standin_defs)
  have gen: "\<not> (ext = flaky_ext \<and> item = ?item \<and> cd = ?cd)" if "Once ext item cd = Some y"
    for ext item cd y
  proof (rule Once.raw_induct
      [where P = "\<lambda>ext item cd y. \<not> (ext = flaky_ext \<and> item = ?item \<and> cd = ?cd)", OF _ that])
    fix once :: "(bytes, mem_redis) Collab \<Rightarrow> (bytes, nat) Item \<Rightarrow> (mem_redis, nat) Cache
        \<Rightarrow> (bytes option res \<times> (mem_redis, nat) Cache) option"
    fix ext item cd y
    assume ih: "\<And>ext item cd y. once ext item cd = Some y \<Longrightarrow>
        \<not> (ext = flaky_ext \<and> item = ?item \<and> cd = ?cd)"
    assume body: "(case getSetItemBytesOnce ext item cd of
        (Ok (b, cached), cd1) \<Rightarrow>
          (case Value item of
             None \<Rightarrow> Some (Ok None, cd1)
           | Some t \<Rightarrow>
               if length b = 0 then Some (Ok (Some t), cd1)
               else (case unmarshal ext b t of
                       Inl err \<Rightarrow>
                         if cached then once ext item (snd (Delete ext (Key item) cd1))
                         else Some (Err err, cd1)
                     | Inr v \<Rightarrow> Some (Ok (Some v), cd1)))
      | (Err e, cd1) \<Rightarrow> Some (Err e, cd1)
      | (Panic p, cd1) \<Rightarrow> Some (Panic p, cd1)) = Some y"
    show "\<not> (ext = flaky_ext \<and> item = ?item \<and> cd = ?cd)"
    proof
      assume a: "ext = flaky_ext \<and> item = ?item \<and> cd = ?cd"
      with body have "once flaky_ext ?item ?cd = Some y"
        by (simp add: g u d)
      from ih [OF this] show False by simp
    qed
  qed
  show ?thesis
  proof (cases "Once flaky_ext ?item ?cd")
    case None
    then show ?thesis .
  next
    case (Some y)
    from gen [OF this] show ?thesis by simp
  qed
qed

section \<open>Set followed by Get\<close>




end
